theory Spec2Isabelle
  imports Complex_Main
begin

section \<open>JavaScript numbers\<close>

text \<open>
  The program computes with JavaScript numbers, the binary64 numbers of IEEE 754. A
  number is \<open>NaN\<close>, an infinity, the negative zero, or a rational: \<open>Fin 0\<close> is the
  positive zero, and the finite numbers that occur at run time are the rationals that
  binary64 represents. Comparisons and the absolute value are exact; a quotient and a
  product are rounded to the nearest binary64 number, ties to the even significand, with
  overflow to an infinity and underflow to a zero of the sign of the exact result.
\<close>

datatype number = NaN | NegInf | NegZero | Fin rat | PosInf

text \<open>The position of the leading bit of a positive natural number.\<close>

fun log2nat :: "nat \<Rightarrow> nat" where
  "log2nat n = (if n < 2 then 0 else Suc (log2nat (n div 2)))"

declare log2nat.simps [simp del]

text \<open>The binary exponent \<open>e\<close> of a positive rational \<open>a\<close>: \<open>2\<^sup>e \<le> a < 2\<^sup>e\<^sup>+\<^sup>1\<close>.\<close>

definition ilog2 :: "rat \<Rightarrow> int" where
  "ilog2 a =
     (if 1 \<le> a then int (log2nat (nat \<lfloor>a\<rfloor>))
      else - int (Suc (log2nat (nat (\<lceil>1 / a\<rceil> - 1)))))"

definition round_half_even :: "rat \<Rightarrow> int" where
  "round_half_even x =
     (let f = \<lfloor>x\<rfloor>; d = x - of_int f
      in if d < 1 / 2 then f else if 1 / 2 < d then f + 1 else if even f then f else f + 1)"

text \<open>The multiple of \<open>2\<^sup>p\<close> nearest to \<open>x\<close>.\<close>

definition round_to :: "int \<Rightarrow> rat \<Rightarrow> rat" where
  "round_to p x = of_int (round_half_even (x / 2 powi p)) * 2 powi p"

text \<open>
  A positive rational rounded to 53 significant bits, or to a multiple of \<open>2\<^sup>-\<^sup>1\<^sup>0\<^sup>7\<^sup>4\<close>
  in the subnormal range.
\<close>

definition round_mag :: "rat \<Rightarrow> rat" where
  "round_mag a = round_to (max (ilog2 a - 52) (- 1074)) a"

definition round64 :: "rat \<Rightarrow> number" where
  "round64 q =
     (if q = 0 then Fin 0
      else
        (let r = round_mag \<bar>q\<bar>
         in if 2 ^ 1024 \<le> r then (if q < 0 then NegInf else PosInf)
            else if r = 0 then (if q < 0 then NegZero else Fin 0)
            else Fin (if q < 0 then - r else r)))"

text \<open>The comparison \<open><\<close>: false with \<open>NaN\<close>, and the two zeros are equal.\<close>

fun lt :: "number \<Rightarrow> number \<Rightarrow> bool" where
  "lt NaN _ = False"
| "lt _ NaN = False"
| "lt _ NegInf = False"
| "lt NegInf _ = True"
| "lt PosInf _ = False"
| "lt _ PosInf = True"
| "lt NegZero NegZero = False"
| "lt NegZero (Fin b) = (0 < b)"
| "lt (Fin a) NegZero = (a < 0)"
| "lt (Fin a) (Fin b) = (a < b)"

definition gt :: "number \<Rightarrow> number \<Rightarrow> bool" where
  "gt a b = lt b a"

fun Math_abs :: "number \<Rightarrow> number" where
  "Math_abs NaN = NaN"
| "Math_abs NegInf = PosInf"
| "Math_abs PosInf = PosInf"
| "Math_abs NegZero = Fin 0"
| "Math_abs (Fin a) = Fin \<bar>a\<bar>"

fun sign_bit :: "number \<Rightarrow> bool" where
  "sign_bit NegInf = True"
| "sign_bit NegZero = True"
| "sign_bit (Fin a) = (a < 0)"
| "sign_bit _ = False"

fun is_zero :: "number \<Rightarrow> bool" where
  "is_zero NegZero = True"
| "is_zero (Fin a) = (a = 0)"
| "is_zero _ = False"

fun is_infinite :: "number \<Rightarrow> bool" where
  "is_infinite NegInf = True"
| "is_infinite PosInf = True"
| "is_infinite _ = False"

fun rat_of :: "number \<Rightarrow> rat" where
  "rat_of (Fin a) = a"
| "rat_of _ = 0"

definition signed_infinity :: "bool \<Rightarrow> number" where
  "signed_infinity negative = (if negative then NegInf else PosInf)"

definition signed_zero :: "bool \<Rightarrow> number" where
  "signed_zero negative = (if negative then NegZero else Fin 0)"

text \<open>
  The quotient \<open>x / y\<close>. The sign of an infinite or zero result is the exclusive or of
  the signs of the operands; a zero divided by a zero and an infinity divided by an
  infinity are \<open>NaN\<close>; division by a zero does not fail.
\<close>

definition divide_num :: "number \<Rightarrow> number \<Rightarrow> number" where
  "divide_num x y =
     (if x = NaN \<or> y = NaN then NaN
      else
        (let negative = (sign_bit x \<noteq> sign_bit y)
         in if is_infinite x then (if is_infinite y then NaN else signed_infinity negative)
            else if is_infinite y then signed_zero negative
            else if is_zero y then (if is_zero x then NaN else signed_infinity negative)
            else if is_zero x then signed_zero negative
            else round64 (rat_of x / rat_of y)))"

text \<open>The product \<open>x * y\<close>; a zero times an infinity is \<open>NaN\<close>.\<close>

definition times_num :: "number \<Rightarrow> number \<Rightarrow> number" where
  "times_num x y =
     (if x = NaN \<or> y = NaN then NaN
      else
        (let negative = (sign_bit x \<noteq> sign_bit y)
         in if is_infinite x \<or> is_infinite y
            then (if is_zero x \<or> is_zero y then NaN else signed_infinity negative)
            else if is_zero x \<or> is_zero y then signed_zero negative
            else round64 (rat_of x * rat_of y)))"

section \<open>Risk classification\<close>

text \<open>
  \<open>getRiskLevel\<close> of chatbot.ts; the copy in the older chatbot file is the same. The
  literals 0.05, 0.1 and 0.15 denote the binary64 numbers nearest to these decimals.
\<close>

definition getRiskLevel :: "number \<Rightarrow> number \<Rightarrow> number \<Rightarrow> string" where
  "getRiskLevel volume marketCap priceChange24h =
     (let liquidityRatio = divide_num volume marketCap;
          volatility = Math_abs priceChange24h
      in if lt liquidityRatio (round64 (5 / 100)) \<or> gt volatility (Fin 50) then ''VERY_HIGH''
         else if lt liquidityRatio (round64 (1 / 10)) \<or> gt volatility (Fin 30) then ''HIGH''
         else if lt liquidityRatio (round64 (15 / 100)) \<or> gt volatility (Fin 20) then ''MEDIUM''
         else ''LOW'')"

text \<open>The classifier as the specification words it, in exact arithmetic on decimals.\<close>

datatype RiskTier = LOW | MEDIUM | HIGH | VERY_HIGH

fun tierName :: "RiskTier \<Rightarrow> string" where
  "tierName LOW = ''LOW''"
| "tierName MEDIUM = ''MEDIUM''"
| "tierName HIGH = ''HIGH''"
| "tierName VERY_HIGH = ''VERY_HIGH''"

definition classify_spec :: "rat \<Rightarrow> rat \<Rightarrow> rat \<Rightarrow> RiskTier" where
  "classify_spec volume marketCap priceChange24hPct =
     (let liquidityRatio = volume / marketCap;
          volatility = \<bar>priceChange24hPct\<bar>
      in if liquidityRatio < 5 / 100 \<or> volatility > 50 then VERY_HIGH
         else if liquidityRatio < 10 / 100 \<or> volatility > 30 then HIGH
         else if liquidityRatio < 15 / 100 \<or> volatility > 20 then MEDIUM
         else LOW)"

text \<open>
  The same algorithm with the quotient rounded to binary64 and with the binary64 numbers
  nearest to 0.05, 0.10 and 0.15 as thresholds of the ratio.
\<close>

definition classify_binary64 :: "rat \<Rightarrow> rat \<Rightarrow> rat \<Rightarrow> RiskTier" where
  "classify_binary64 volume marketCap priceChange24hPct =
     (let liquidityRatio = round64 (volume / marketCap);
          volatility = \<bar>priceChange24hPct\<bar>
      in if lt liquidityRatio (round64 (5 / 100)) \<or> volatility > 50 then VERY_HIGH
         else if lt liquidityRatio (round64 (10 / 100)) \<or> volatility > 30 then HIGH
         else if lt liquidityRatio (round64 (15 / 100)) \<or> volatility > 20 then MEDIUM
         else LOW)"

section \<open>Strings and number formatting\<close>

text \<open>
  A string is the list of the bytes of its UTF-8 encoding. \<open>toUpperCase\<close> maps a
  string of ASCII characters letter by letter; the upper-casing of any other string
  follows the Unicode tables and is the parameter \<open>unicode_upper\<close> of the model.
\<close>

definition upperChar :: "char \<Rightarrow> char" where
  "upperChar c =
     (case map_of (zip ''abcdefghijklmnopqrstuvwxyz'' ''ABCDEFGHIJKLMNOPQRSTUVWXYZ'') c of
        Some u \<Rightarrow> u
      | None \<Rightarrow> c)"

definition is_ascii :: "char \<Rightarrow> bool" where
  "is_ascii c = (\<not> digit7 c)"

definition toUpperCase :: "(string \<Rightarrow> string) \<Rightarrow> string \<Rightarrow> string" where
  "toUpperCase unicode_upper s =
     (if list_all is_ascii s then map upperChar s else unicode_upper s)"

fun startsWith :: "string \<Rightarrow> string \<Rightarrow> bool" where
  "startsWith _ [] = True"
| "startsWith [] (p # ps) = False"
| "startsWith (c # cs) (p # ps) = (c = p \<and> startsWith cs ps)"

text \<open>\<open>str_includes s t\<close> (the method \<open>String.includes\<close>): the text \<open>t\<close> occurs in \<open>s\<close>.\<close>

fun str_includes :: "string \<Rightarrow> string \<Rightarrow> bool" where
  "str_includes [] t = (t = [])"
| "str_includes (c # cs) t = (startsWith (c # cs) t \<or> str_includes cs t)"

text \<open>The decimal digits of a natural number.\<close>

fun digits :: "nat \<Rightarrow> string" where
  "digits n =
     (if n < 10 then [''0123456789'' ! n]
      else digits (n div 10) @ [''0123456789'' ! (n mod 10)])"

declare digits.simps [simp del]

text \<open>
  A number inside a template literal. An integer of at most \<open>2\<^sup>5\<^sup>3\<close> in absolute value
  is written with its decimal digits. The digits of any other finite value are the
  shortest that read back as the same binary64 number; their formatting is a parameter
  \<open>fmt\<close> of the model.
\<close>

definition numToString :: "(rat \<Rightarrow> string) \<Rightarrow> number \<Rightarrow> string" where
  "numToString fmt n =
     (case n of
        NaN \<Rightarrow> ''NaN''
      | PosInf \<Rightarrow> ''Infinity''
      | NegInf \<Rightarrow> ''-Infinity''
      | NegZero \<Rightarrow> ''0''
      | Fin q \<Rightarrow>
          if q = of_int \<lfloor>q\<rfloor> \<and> \<bar>q\<bar> \<le> 2 ^ 53
          then (if q < 0 then ''-'' else []) @ digits (nat \<bar>\<lfloor>q\<rfloor>\<bar>)
          else fmt q)"

text \<open>Truthiness of a number, for \<open>||\<close>: zero and \<open>NaN\<close> are falsy.\<close>

fun truthy :: "number \<Rightarrow> bool" where
  "truthy NaN = False"
| "truthy NegZero = False"
| "truthy (Fin q) = (q \<noteq> 0)"
| "truthy _ = True"

section \<open>The environment of the actions\<close>

text \<open>
  What a \<open>try\<close> block can catch: an axios error with the status of the response, if
  there was a response, and its message; another \<open>Error\<close> with its message; or a
  value that is not an \<open>Error\<close>.
\<close>

datatype thrown = AxiosError "nat option" string | Error string | NonError

datatype logLine = Log string | ErrorLog string thrown

type_synonym swapCall = "string \<times> number \<times> number"

text \<open>
  The effects of the actions: the lines written to the console, and the calls of
  \<open>performSwapTransaction\<close> with token address, amount and slippage.
\<close>

record world =
  console :: "logLine list"
  swapCalls :: "swapCall list"

section \<open>Market data\<close>

datatype Category = MEME | DEFI | AI | ZK

fun COIN_CATEGORIES :: "Category \<Rightarrow> string" where
  "COIN_CATEGORIES MEME = ''meme-token''"
| "COIN_CATEGORIES DEFI = ''decentralized-finance-defi''"
| "COIN_CATEGORIES AI = ''artificial-intelligence''"
| "COIN_CATEGORIES ZK = ''zero-knowledge-zk''"

fun categoryKey :: "Category \<Rightarrow> string" where
  "categoryKey MEME = ''MEME''"
| "categoryKey DEFI = ''DEFI''"
| "categoryKey AI = ''AI''"
| "categoryKey ZK = ''ZK''"

record CoinGeckoResponse =
  symbol :: string
  current_price :: number
  price_change_percentage_24h :: number
  total_volume :: number
  market_cap :: number

text \<open>
  The object built for each coin; \<open>sym\<close> is its \<open>symbol\<close> field, the other fields have
  the names of the source.
\<close>

record CoinMetrics =
  sym :: string
  price :: number
  priceChange24h :: number
  volume :: number
  marketCap :: number
  liquidityScore :: number
  riskLevel :: string

text \<open>The query of the one GET request, with the key sent in the header.\<close>

record marketQuery =
  q_vs_currency :: string
  q_category :: string
  q_order :: string
  q_per_page :: number
  q_sparkline :: bool
  q_api_key :: string

text \<open>
  The market-data provider answers a query with the records of the response, or the
  request throws.
\<close>

type_synonym provider = "marketQuery \<Rightarrow> thrown + CoinGeckoResponse list"

definition analyseCoin :: "(string \<Rightarrow> string) \<Rightarrow> CoinGeckoResponse \<Rightarrow> CoinMetrics" where
  "analyseCoin up coin =
     \<lparr>sym = toUpperCase up (symbol coin),
      price = current_price coin,
      priceChange24h = price_change_percentage_24h coin,
      volume = total_volume coin,
      marketCap = market_cap coin,
      liquidityScore = times_num (divide_num (total_volume coin) (market_cap coin)) (Fin 100),
      riskLevel =
        getRiskLevel (total_volume coin) (market_cap coin) (price_change_percentage_24h coin)\<rparr>"

datatype fetched = ErrorText string | Coins "CoinMetrics list"

text \<open>
  \<open>analyzeCoins\<close> of chatbot.ts. The key is the environment variable
  \<open>COINGECKO_API_KEY\<close>, unset (\<open>None\<close>) or a string; the empty string is falsy.
\<close>

definition analyzeCoins ::
  "(string \<Rightarrow> string) \<Rightarrow> string option \<Rightarrow> provider \<Rightarrow> string \<Rightarrow> number \<Rightarrow> world
   \<Rightarrow> fetched \<times> world" where
  "analyzeCoins up apiKey get cat limit w =
     (case apiKey of
        None \<Rightarrow> (ErrorText ''Error: CoinGecko API key not configured.'', w)
      | Some k \<Rightarrow>
          if k = [] then (ErrorText ''Error: CoinGecko API key not configured.'', w)
          else
            (case get \<lparr>q_vs_currency = ''usd'', q_category = cat, q_order = ''volume_desc'',
                        q_per_page = limit, q_sparkline = False, q_api_key = k\<rparr> of
               Inr response_data \<Rightarrow> (Coins (map (analyseCoin up) response_data), w)
             | Inl error \<Rightarrow>
                 (Coins [],
                  w\<lparr>console := console w @ [ErrorLog (''Failed to fetch '' @ cat @ '' data:'') error]\<rparr>)))"

text \<open>
  The object that the action of \<open>createCoinAnalysisAction\<close> hands to
  \<open>JSON.stringify\<close>.
\<close>

record analysisReport =
  data :: fetched
  message :: string
  category :: string
  timestamp :: string

text \<open>
  The \<open>invoke\<close> of \<open>createCoinAnalysisAction\<close>; the schema gives an omitted limit the
  value 10, and \<open>now\<close> is the time of the call in ISO format.
\<close>

definition analysis_invoke ::
  "(rat \<Rightarrow> string) \<Rightarrow> (string \<Rightarrow> string) \<Rightarrow> string \<Rightarrow> string option \<Rightarrow> provider \<Rightarrow> Category
   \<Rightarrow> number option \<Rightarrow> world \<Rightarrow> analysisReport \<times> world" where
  "analysis_invoke fmt up now apiKey get cat limit_arg w =
     (let limit = (case limit_arg of None \<Rightarrow> Fin 10 | Some l \<Rightarrow> l);
          (fetched_data, w') = analyzeCoins up apiKey get (COIN_CATEGORIES cat) limit w
      in (\<lparr>data = fetched_data,
           message = ''Top '' @ numToString fmt limit @ '' '' @ categoryKey cat @ '' coins analyzed'',
           category = categoryKey cat,
           timestamp = now\<rparr>, w'))"

subsection \<open>The older memecoin action\<close>

datatype memecoinResult = Text string | Report "CoinMetrics list" string string

text \<open>
  The \<open>invoke\<close> of \<open>analyze_memecoins\<close> in the older chatbot file. \<open>Report\<close> stands for
  the object given to \<open>JSON.stringify\<close>, with its data, timestamp and message. The
  request carries a fixed key, not the one of the environment.
\<close>

definition memecoin_invoke ::
  "(string \<Rightarrow> string) \<Rightarrow> string \<Rightarrow> string option \<Rightarrow> provider \<Rightarrow> world
   \<Rightarrow> memecoinResult \<times> world" where
  "memecoin_invoke up now apiKey get w =
     (let limit = Fin 10 in
      if apiKey = None \<or> apiKey = Some []
      then (Text ''Error: CoinGecko API key not configured. Please contact support.'', w)
      else
        (case get \<lparr>q_vs_currency = ''usd'', q_category = ''meme-token'', q_order = ''volume_desc'',
                    q_per_page = limit, q_sparkline = False,
                    q_api_key = ''CG-3DMPfLJag2C5qnfbVMtocbz9''\<rparr> of
           Inr response_data \<Rightarrow>
             (let analysis = map (analyseCoin up) response_data
              in (Report analysis now
                   (''Analyzed '' @ digits (length analysis) @ '' memecoins based on market data''),
                  w))
         | Inl error \<Rightarrow>
             (let w' = w\<lparr>console := console w @ [ErrorLog ''Failed to fetch memecoin data:'' error]\<rparr>
              in case error of
                   AxiosError (Some status) _ \<Rightarrow>
                     if status = 400
                     then (Text ''Error: Invalid request parameters. Please try different search criteria.'', w')
                     else if status = 401
                     then (Text ''Error: Invalid CoinGecko API key. Please check your configuration.'', w')
                     else if status = 429
                     then (Text ''Error: API rate limit exceeded. Please try again later.'', w')
                     else (Text ''Error: Failed to fetch market data. Please try again later.'', w')
                 | _ \<Rightarrow> (Text ''Error: Failed to fetch market data. Please try again later.'', w'))))"

section \<open>Investing\<close>

text \<open>
  The wallet provider: its balance query answers with a value that the action compares
  with the amount and prints, modelled as a number, or it throws.
\<close>

record walletProvider =
  getBalance :: "thrown + number"

record investArgs =
  tokenAddress :: string
  amount :: number
  slippage :: "number option"
  token_category :: Category

definition performSwapTransaction ::
  "(rat \<Rightarrow> string) \<Rightarrow> string \<Rightarrow> number \<Rightarrow> number \<Rightarrow> world \<Rightarrow> string \<times> world" where
  "performSwapTransaction fmt token amt slip w =
     (''0x1234567890abcdef'',
      w\<lparr>console := console w @
           [Log (''Swapping '' @ numToString fmt amt @ '' ETH for '' @ token @ '' with '' @
                 numToString fmt slip @ ''% slippage tolerance...'')],
        swapCalls := swapCalls w @ [(token, amt, slip)]\<rparr>)"

text \<open>\<open>args.slippage || 2\<close>.\<close>

definition slippage_or_default :: "number option \<Rightarrow> number" where
  "slippage_or_default s = (case s of None \<Rightarrow> Fin 2 | Some x \<Rightarrow> if truthy x then x else Fin 2)"

fun thrown_message :: "thrown \<Rightarrow> string" where
  "thrown_message (AxiosError _ msg) = msg"
| "thrown_message (Error msg) = msg"
| "thrown_message NonError = ''Unknown error''"

definition insufficient_text :: "(rat \<Rightarrow> string) \<Rightarrow> number \<Rightarrow> investArgs \<Rightarrow> string" where
  "insufficient_text fmt balance args =
     ''Insufficient mainnet balance ('' @ numToString fmt balance @
     '' ETH). Please top up your wallet to invest '' @ numToString fmt (amount args) @
     '' ETH in '' @ categoryKey (token_category args) @ '' token.''"

definition invested_text :: "(rat \<Rightarrow> string) \<Rightarrow> investArgs \<Rightarrow> string \<Rightarrow> string" where
  "invested_text fmt args txHash =
     ''Invested '' @ numToString fmt (amount args) @ '' ETH in '' @
     categoryKey (token_category args) @ '' token ('' @ tokenAddress args @ ''). TX Hash: '' @ txHash"

text \<open>The \<open>invoke\<close> of \<open>invest_in_coin\<close> in chatbot.ts.\<close>

definition invest_invoke ::
  "(rat \<Rightarrow> string) \<Rightarrow> walletProvider \<Rightarrow> investArgs \<Rightarrow> world \<Rightarrow> string \<times> world" where
  "invest_invoke fmt wallet args w =
     (case getBalance wallet of
        Inl error \<Rightarrow> (''Investment failed: '' @ thrown_message error, w)
      | Inr balance \<Rightarrow>
          if lt balance (amount args) then (insufficient_text fmt balance args, w)
          else
            (let (txHash, w') =
                   performSwapTransaction fmt (tokenAddress args) (amount args)
                     (slippage_or_default (slippage args)) w
             in (invested_text fmt args txHash, w')))"

section \<open>Severity order and test doubles\<close>

text \<open>The rank of a tier name: LOW, MEDIUM, HIGH, VERY_HIGH in rising severity.\<close>

definition severity :: "string \<Rightarrow> nat" where
  "severity s =
     (if s = ''VERY_HIGH'' then 3 else if s = ''HIGH'' then 2 else if s = ''MEDIUM'' then 1 else 0)"

text \<open>
  Test doubles for the scenarios: a provider that answers every query with the same
  records, a provider whose every request throws, a world without effects so far, a
  formatter for scenarios in which every number is a small integer, and an upper-casing
  for scenarios in which every symbol is ASCII.
\<close>

definition mock_respond :: "CoinGeckoResponse list \<Rightarrow> provider" where
  "mock_respond records q = Inr records"

definition mock_fail :: "thrown \<Rightarrow> provider" where
  "mock_fail e q = Inl e"

definition coin_record :: "string \<Rightarrow> rat \<Rightarrow> rat \<Rightarrow> rat \<Rightarrow> rat \<Rightarrow> CoinGeckoResponse" where
  "coin_record s p c v m =
     \<lparr>symbol = s, current_price = Fin p, price_change_percentage_24h = Fin c,
      total_volume = Fin v, market_cap = Fin m\<rparr>"

definition fresh_world :: world where
  "fresh_world = \<lparr>console = [], swapCalls = []\<rparr>"

definition integers_only :: "rat \<Rightarrow> string" where
  "integers_only q = []"

definition ascii_only :: "string \<Rightarrow> string" where
  "ascii_only s = s"

section \<open>Auxiliary facts\<close>

subsection \<open>Rounding is monotone\<close>

lemma log2nat_bounds: "0 < n \<Longrightarrow> 2 ^ log2nat n \<le> n \<and> n < 2 ^ Suc (log2nat n)"
proof (induction n rule: log2nat.induct)
  case (1 n)
  show ?case
  proof (cases "n < 2")
    case True
    with "1.prems" have "n = 1" by simp
    then show ?thesis by (simp add: log2nat.simps)
  next
    case False
    then have pos: "0 < n div 2" by simp
    from "1.IH" [OF False pos]
    have lo: "2 ^ log2nat (n div 2) \<le> n div 2" and hi: "n div 2 < 2 ^ Suc (log2nat (n div 2))"
      by simp_all
    have eq: "log2nat n = Suc (log2nat (n div 2))"
      using False by (subst log2nat.simps) simp
    from lo have "2 * 2 ^ log2nat (n div 2) \<le> n" by linarith
    moreover from hi have "n < 2 * 2 ^ Suc (log2nat (n div 2))" by linarith
    ultimately show ?thesis by (simp add: eq)
  qed
qed

lemma round_half_even_of_int [simp]: "round_half_even (of_int n) = n"
  by (simp add: round_half_even_def)

lemma round_half_even_bounds: "\<lfloor>x\<rfloor> \<le> round_half_even x \<and> round_half_even x \<le> \<lfloor>x\<rfloor> + 1"
  by (simp add: round_half_even_def Let_def)

lemma round_half_even_mono: "x \<le> y \<Longrightarrow> round_half_even x \<le> round_half_even y"
proof -
  assume le: "x \<le> y"
  then have fl: "\<lfloor>x\<rfloor> \<le> \<lfloor>y\<rfloor>" by (rule floor_mono)
  show ?thesis
  proof (cases "\<lfloor>x\<rfloor> = \<lfloor>y\<rfloor>")
    case True
    with le have "x - of_int \<lfloor>x\<rfloor> \<le> y - of_int \<lfloor>y\<rfloor>" by simp
    with True show ?thesis
      by (auto simp: round_half_even_def Let_def)
  next
    case False
    with fl have "\<lfloor>x\<rfloor> + 1 \<le> \<lfloor>y\<rfloor>" by simp
    with round_half_even_bounds [of x] round_half_even_bounds [of y] show ?thesis
      by linarith
  qed
qed

lemma ilog2_bounds:
  assumes "0 < a"
  shows "2 powi ilog2 a \<le> a \<and> a < 2 powi (ilog2 a + 1)"
proof (cases "1 \<le> a")
  case True
  define n where "n = nat \<lfloor>a\<rfloor>"
  from True have n: "0 < n" "int n = \<lfloor>a\<rfloor>" by (simp_all add: n_def)
  from log2nat_bounds [OF n(1)] have lo: "2 ^ log2nat n \<le> n" and hi: "n < 2 ^ Suc (log2nat n)"
    by simp_all
  have e: "ilog2 a = int (log2nat n)"
    using True by (simp add: ilog2_def n_def)
  from lo have "(2::int) ^ log2nat n \<le> int n"
    by (metis of_nat_le_iff of_nat_numeral of_nat_power)
  then have "(2::int) ^ log2nat n \<le> \<lfloor>a\<rfloor>" using n by simp
  then have "of_int ((2::int) ^ log2nat n) \<le> a" by (simp only: le_floor_iff)
  then have A: "2 powi ilog2 a \<le> a" by (simp add: e)
  from hi have "int n < 2 ^ Suc (log2nat n)"
    by (metis of_nat_less_iff of_nat_numeral of_nat_power)
  then have "\<lfloor>a\<rfloor> < 2 ^ Suc (log2nat n)" using n by simp
  then have "a < of_int (2 ^ Suc (log2nat n))" by (simp only: floor_less_iff)
  then have B: "a < 2 powi (ilog2 a + 1)"
    by (simp add: e power_int_add)
  from A B show ?thesis ..
next
  case False
  define y where "y = 1 / a"
  from False assms have y1: "1 < y" by (simp add: y_def)
  define m where "m = nat (\<lceil>y\<rceil> - 1)"
  from y1 have "1 < \<lceil>y\<rceil>" by (simp add: less_ceiling_iff)
  then have m: "0 < m" "int m = \<lceil>y\<rceil> - 1" by (simp_all add: m_def)
  from log2nat_bounds [OF m(1)] have lo: "2 ^ log2nat m \<le> m" and hi: "m < 2 ^ Suc (log2nat m)"
    by simp_all
  have e: "ilog2 a = - int (Suc (log2nat m))"
    using False by (simp add: ilog2_def m_def y_def)
  from hi have "int m < 2 ^ Suc (log2nat m)"
    by (metis of_nat_less_iff of_nat_numeral of_nat_power)
  then have "\<lceil>y\<rceil> \<le> 2 ^ Suc (log2nat m)" using m by simp
  then have "y \<le> of_int (2 ^ Suc (log2nat m))" by (simp only: ceiling_le_iff)
  then have yhi: "y \<le> 2 ^ Suc (log2nat m)" by simp
  from lo have "(2::int) ^ log2nat m \<le> int m"
    by (metis of_nat_le_iff of_nat_numeral of_nat_power)
  then have "(2::int) ^ log2nat m < \<lceil>y\<rceil>" using m by simp
  then have "of_int ((2::int) ^ log2nat m) < y" by (simp only: less_ceiling_iff)
  then have ylo: "2 ^ log2nat m < y" by simp
  have ay: "a = 1 / y" by (simp add: y_def)
  have ypos: "0 < y" using y1 by simp
  have p1: "2 powi ilog2 a = (1 / 2 ^ Suc (log2nat m) :: rat)"
    unfolding e by (simp only: power_int_minus power_int_of_nat inverse_eq_divide)
  have "1 / 2 ^ Suc (log2nat m) \<le> 1 / y"
    using yhi ypos by (simp add: field_simps)
  then have "2 powi ilog2 a \<le> 1 / y"
    by (simp only: p1)
  then have A: "2 powi ilog2 a \<le> a"
    by (simp add: y_def)
  have "ilog2 a + 1 = - int (log2nat m)" by (simp add: e)
  then have p2: "2 powi (ilog2 a + 1) = (1 / 2 ^ log2nat m :: rat)"
    by (simp only: power_int_minus power_int_of_nat inverse_eq_divide)
  have "1 / y < 1 / 2 ^ log2nat m"
    using ylo ypos by (simp add: field_simps)
  then have "1 / y < 2 powi (ilog2 a + 1)"
    by (simp only: p2)
  then have B: "a < 2 powi (ilog2 a + 1)"
    by (simp add: y_def)
  from A B show ?thesis ..
qed


lemma ilog2_mono:
  assumes "0 < a" and "a \<le> b"
  shows "ilog2 a \<le> ilog2 b"
proof (rule ccontr)
  assume "\<not> ilog2 a \<le> ilog2 b"
  then have "ilog2 b + 1 \<le> ilog2 a" by simp
  then have "(2::rat) powi (ilog2 b + 1) \<le> 2 powi ilog2 a"
    by (intro power_int_increasing) simp_all
  moreover from assms have "0 < b" by simp
  ultimately show False
    using ilog2_bounds [OF assms(1)] ilog2_bounds [of b] assms(2) by linarith
qed

lemma round_to_mono: "x \<le> y \<Longrightarrow> round_to p x \<le> round_to p y"
proof -
  assume "x \<le> y"
  then have "x / 2 powi p \<le> y / 2 powi p"
    by (simp add: divide_right_mono)
  then have "round_half_even (x / 2 powi p) \<le> round_half_even (y / 2 powi p)"
    by (rule round_half_even_mono)
  then have "(of_int (round_half_even (x / 2 powi p)) :: rat) \<le> of_int (round_half_even (y / 2 powi p))"
    by simp
  then show ?thesis
    unfolding round_to_def by (intro mult_right_mono) simp_all
qed

lemma round_to_grid:
  assumes "0 \<le> k"
  shows "round_to p (2 powi (p + k)) = 2 powi (p + k)"
proof -
  have "(2::rat) powi (p + k) / 2 powi p = 2 powi k"
    by (simp add: power_int_add)
  also have "\<dots> = of_int (2 ^ nat k)"
    using assms by (simp add: power_int_nonneg_exp)
  finally have q: "(2::rat) powi (p + k) / 2 powi p = of_int (2 ^ nat k)" .
  have "round_to p (2 powi (p + k)) = of_int (2 ^ nat k) * 2 powi p"
    by (simp only: round_to_def q round_half_even_of_int)
  also have "\<dots> = 2 powi k * 2 powi p"
    using assms by (simp add: power_int_nonneg_exp)
  also have "\<dots> = 2 powi (p + k)"
    by (simp add: power_int_add)
  finally show ?thesis .
qed

lemma round_to_zero [simp]: "round_to p 0 = 0"
  using round_half_even_of_int [of 0] by (simp add: round_to_def)

lemma round_mag_nonneg: "0 < a \<Longrightarrow> 0 \<le> round_mag a"
  using round_to_mono [of 0 a] by (simp add: round_mag_def)

lemma round_mag_mono:
  assumes "0 < a" and "a \<le> b"
  shows "round_mag a \<le> round_mag b"
proof -
  define pa where "pa = max (ilog2 a - 52) (- 1074)"
  define pb where "pb = max (ilog2 b - 52) (- 1074)"
  from assms have bpos: "0 < b" by simp
  have e: "ilog2 a \<le> ilog2 b" using assms by (rule ilog2_mono)
  then have p: "pa \<le> pb" by (simp add: pa_def pb_def)
  show ?thesis
  proof (cases "pa = pb")
    case True
    then show ?thesis
      using round_to_mono [OF assms(2), of pb] by (simp add: round_mag_def pa_def pb_def)
  next
    case False
    with p have lt: "pa < pb" by simp
    then have pb: "pb = ilog2 b - 52" and ea: "ilog2 a + 1 \<le> ilog2 b"
      by (auto simp: pa_def pb_def)
    define M :: rat where "M = 2 powi ilog2 b"
    have "(2::rat) powi (ilog2 a + 1) \<le> 2 powi ilog2 b"
      using ea by (intro power_int_increasing) simp_all
    with ilog2_bounds [OF assms(1)] have aM: "a \<le> M" by (simp add: M_def)
    from ilog2_bounds [OF bpos] have Mb: "M \<le> b" by (simp add: M_def)
    have "0 \<le> ilog2 b - pa" using lt pb by simp
    from round_to_grid [OF this, of pa] have ga: "round_to pa M = M" by (simp add: M_def)
    have "0 \<le> ilog2 b - pb" using pb by simp
    from round_to_grid [OF this, of pb] have gb: "round_to pb M = M" by (simp add: M_def)
    have "round_mag a \<le> M"
      using round_to_mono [OF aM, of pa] ga by (simp add: round_mag_def pa_def)
    moreover have "M \<le> round_mag b"
      using round_to_mono [OF Mb, of pb] gb by (simp add: round_mag_def pb_def)
    ultimately show ?thesis by simp
  qed
qed

subsection \<open>Evaluation and comparison of rounded numbers\<close>

lemma floor_rat_numeral:
  "\<lfloor>numeral a / numeral b :: rat\<rfloor> = numeral a div numeral b"
  using floor_divide_of_int_eq [of "numeral a" "numeral b", where ?'a = rat] by simp

lemma ceiling_rat_numeral:
  "\<lceil>numeral a / numeral b :: rat\<rceil> = - ((- numeral a) div numeral b)"
  using ceiling_divide_eq_div [of "numeral a" "numeral b", where ?'a = rat] by simp

lemma log2nat_numeral:
  "log2nat (numeral n) = (if numeral n < (2::nat) then 0 else Suc (log2nat (numeral n div 2)))"
  by (rule log2nat.simps)

lemma log2nat_small: "log2nat 0 = 0" "log2nat 1 = 0" "log2nat (Suc 0) = 0"
  by (simp_all add: log2nat.simps)

lemmas round64_eval = round64_def round_mag_def round_to_def ilog2_def round_half_even_def
  Let_def floor_rat_numeral ceiling_rat_numeral log2nat_numeral log2nat_small

lemma threshold_values:
  "round64 (5 / 100) = Fin (3602879701896397 / 72057594037927936)"
  "round64 (1 / 10) = Fin (3602879701896397 / 36028797018963968)"
  "round64 (10 / 100) = Fin (3602879701896397 / 36028797018963968)"
  "round64 (15 / 100) = Fin (5404319552844595 / 36028797018963968)"
  by (simp_all add: round64_eval)

lemma divide_num_pos: "0 < cap \<Longrightarrow> divide_num (Fin vol) (Fin cap) = round64 (vol / cap)"
  by (simp add: divide_num_def signed_zero_def round64_def)

lemma divide_num_nonzero:
  "cap \<noteq> 0 \<Longrightarrow> vol \<noteq> 0 \<Longrightarrow> divide_num (Fin vol) (Fin cap) = round64 (vol / cap)"
  by (simp add: divide_num_def)

lemma lt_Fin_mono: "lt x (Fin a) \<Longrightarrow> a \<le> b \<Longrightarrow> lt x (Fin b)"
  by (cases x) auto

lemma Fin_lt_mono: "lt (Fin a) x \<Longrightarrow> b \<le> a \<Longrightarrow> lt (Fin b) x"
  by (cases x) auto

lemma lt_irrefl: "\<not> lt x x"
  by (cases x) simp_all

lemma lt_round64_mono:
  assumes "r' \<le> r" and "lt (round64 r) (Fin t)"
  shows "lt (round64 r') (Fin t)"
proof -
  have pos: "0 < r' \<Longrightarrow> round_mag \<bar>r'\<bar> \<le> round_mag \<bar>r\<bar>"
    using assms(1) round_mag_mono [of "\<bar>r'\<bar>" "\<bar>r\<bar>"] by simp
  have neg: "r < 0 \<Longrightarrow> round_mag \<bar>r\<bar> \<le> round_mag \<bar>r'\<bar>"
    using assms(1) round_mag_mono [of "\<bar>r\<bar>" "\<bar>r'\<bar>"] by simp
  have n1: "r \<noteq> 0 \<Longrightarrow> 0 \<le> round_mag \<bar>r\<bar>"
    using round_mag_nonneg [of "\<bar>r\<bar>"] by simp
  have n2: "r' \<noteq> 0 \<Longrightarrow> 0 \<le> round_mag \<bar>r'\<bar>"
    using round_mag_nonneg [of "\<bar>r'\<bar>"] by simp
  consider "r' < 0" "r < 0" | "r' < 0" "r = 0" | "r' < 0" "0 < r" | "r' = 0" "r = 0"
    | "r' = 0" "0 < r" | "0 < r'" "0 < r"
    using assms(1) by linarith
  then show ?thesis
  proof cases
    case 1
    with neg n1 n2 assms(2) show ?thesis
      by (auto simp: round64_def Let_def split: if_splits)
  next
    case 2
    with n2 assms(2) show ?thesis
      by (auto simp: round64_def Let_def split: if_splits)
  next
    case 3
    with n1 n2 assms(2) show ?thesis
      by (auto simp: round64_def Let_def split: if_splits)
  next
    case 4
    with assms(2) show ?thesis by simp
  next
    case 5
    with n1 assms(2) show ?thesis
      by (auto simp: round64_def Let_def split: if_splits)
  next
    case 6
    with pos n1 n2 assms(2) show ?thesis
      by (auto simp: round64_def Let_def split: if_splits)
  qed
qed

subsection \<open>The classifier on a positive market capitalisation\<close>

lemma getRiskLevel_pos:
  "0 < cap \<Longrightarrow>
   getRiskLevel (Fin vol) (Fin cap) (Fin change) =
     (if lt (round64 (vol / cap)) (round64 (5 / 100)) \<or> 50 < \<bar>change\<bar> then ''VERY_HIGH''
      else if lt (round64 (vol / cap)) (round64 (1 / 10)) \<or> 30 < \<bar>change\<bar> then ''HIGH''
      else if lt (round64 (vol / cap)) (round64 (15 / 100)) \<or> 20 < \<bar>change\<bar> then ''MEDIUM''
      else ''LOW'')"
  by (simp only: getRiskLevel_def divide_num_pos Let_def gt_def Math_abs.simps lt.simps)

lemma severity_names:
  "severity ''VERY_HIGH'' = 3" "severity ''HIGH'' = 2" "severity ''MEDIUM'' = 1"
  "severity ''LOW'' = 0"
  by (simp_all add: severity_def)

lemma severity_getRiskLevel:
  "0 < cap \<Longrightarrow>
   severity (getRiskLevel (Fin vol) (Fin cap) (Fin change)) =
     (if lt (round64 (vol / cap)) (round64 (5 / 100)) \<or> 50 < \<bar>change\<bar> then 3
      else if lt (round64 (vol / cap)) (round64 (1 / 10)) \<or> 30 < \<bar>change\<bar> then 2
      else if lt (round64 (vol / cap)) (round64 (15 / 100)) \<or> 20 < \<bar>change\<bar> then 1
      else 0)"
  by (simp only: getRiskLevel_pos if_distrib [of severity] severity_names)

lemma severity_mono:
  fixes r r' a a' :: rat
  assumes "r' \<le> r" and "a \<le> a'"
  shows "(if lt (round64 r) (round64 (5 / 100)) \<or> 50 < a then 3
      else if lt (round64 r) (round64 (1 / 10)) \<or> 30 < a then 2
      else if lt (round64 r) (round64 (15 / 100)) \<or> 20 < a then 1
      else 0 :: nat) \<le> (if lt (round64 r') (round64 (5 / 100)) \<or> 50 < a' then 3
      else if lt (round64 r') (round64 (1 / 10)) \<or> 30 < a' then 2
      else if lt (round64 r') (round64 (15 / 100)) \<or> 20 < a' then 1
      else 0)"
proof -
  have m: "lt (round64 r) (Fin t) \<Longrightarrow> lt (round64 r') (Fin t)" for t
    using assms(1) by (rule lt_round64_mono)
  have t12: "lt x (Fin (3602879701896397 / 72057594037927936)) \<Longrightarrow>
      lt x (Fin (3602879701896397 / 36028797018963968))" for x
    by (erule lt_Fin_mono) simp
  have t23: "lt x (Fin (3602879701896397 / 36028797018963968)) \<Longrightarrow>
      lt x (Fin (5404319552844595 / 36028797018963968))" for x
    by (erule lt_Fin_mono) simp
  show ?thesis
    unfolding threshold_values using assms(2) m t12 t23
    by (auto split: if_splits)
qed

lemma ratio_boundaries:
  "(divide_num vol cap = round64 (5 / 100) \<and> \<not> gt (Math_abs change) (Fin 50)
      \<longrightarrow> getRiskLevel vol cap change = ''HIGH'') \<and>
   (divide_num vol cap = round64 (10 / 100) \<and> \<not> gt (Math_abs change) (Fin 30)
      \<longrightarrow> getRiskLevel vol cap change = ''MEDIUM'') \<and>
   (divide_num vol cap = round64 (15 / 100) \<and> \<not> gt (Math_abs change) (Fin 20)
      \<longrightarrow> getRiskLevel vol cap change = ''LOW'')"
proof (intro conjI impI)
  assume "divide_num vol cap = round64 (5 / 100) \<and> \<not> gt (Math_abs change) (Fin 50)"
  then show "getRiskLevel vol cap change = ''HIGH''"
    unfolding getRiskLevel_def threshold_values by (simp add: gt_def)
next
  assume h: "divide_num vol cap = round64 (10 / 100) \<and> \<not> gt (Math_abs change) (Fin 30)"
  then have "\<not> lt (Fin 50) (Math_abs change)"
    using Fin_lt_mono [of 50 "Math_abs change" 30] by (auto simp: gt_def)
  with h show "getRiskLevel vol cap change = ''MEDIUM''"
    unfolding getRiskLevel_def threshold_values by (simp add: gt_def)
next
  assume h: "divide_num vol cap = round64 (15 / 100) \<and> \<not> gt (Math_abs change) (Fin 20)"
  then have "\<not> lt (Fin 50) (Math_abs change)" and "\<not> lt (Fin 30) (Math_abs change)"
    using Fin_lt_mono [of 50 "Math_abs change" 20] Fin_lt_mono [of 30 "Math_abs change" 20]
    by (auto simp: gt_def)
  with h show "getRiskLevel vol cap change = ''LOW''"
    unfolding getRiskLevel_def threshold_values by (simp add: gt_def)
qed

lemma volatility_boundaries:
  "(Math_abs change = Fin 50 \<and> \<not> lt (divide_num vol cap) (round64 (5 / 100))
      \<longrightarrow> getRiskLevel vol cap change = ''HIGH'') \<and>
   (Math_abs change = Fin 30 \<and> \<not> lt (divide_num vol cap) (round64 (10 / 100))
      \<longrightarrow> getRiskLevel vol cap change = ''MEDIUM'') \<and>
   (Math_abs change = Fin 20 \<and> \<not> lt (divide_num vol cap) (round64 (15 / 100))
      \<longrightarrow> getRiskLevel vol cap change = ''LOW'')"
proof (intro conjI impI)
  assume "Math_abs change = Fin 50 \<and> \<not> lt (divide_num vol cap) (round64 (5 / 100))"
  then show "getRiskLevel vol cap change = ''HIGH''"
    unfolding getRiskLevel_def threshold_values by (simp add: gt_def)
next
  assume h: "Math_abs change = Fin 30 \<and> \<not> lt (divide_num vol cap) (round64 (10 / 100))"
  then have "\<not> lt (divide_num vol cap) (Fin (3602879701896397 / 72057594037927936))"
    unfolding threshold_values
    using lt_Fin_mono [of "divide_num vol cap" "3602879701896397 / 72057594037927936"
        "3602879701896397 / 36028797018963968"] by auto
  with h show "getRiskLevel vol cap change = ''MEDIUM''"
    unfolding getRiskLevel_def threshold_values by (simp add: gt_def)
next
  assume h: "Math_abs change = Fin 20 \<and> \<not> lt (divide_num vol cap) (round64 (15 / 100))"
  then have "\<not> lt (divide_num vol cap) (Fin (3602879701896397 / 72057594037927936))"
    and "\<not> lt (divide_num vol cap) (Fin (3602879701896397 / 36028797018963968))"
    unfolding threshold_values
    using lt_Fin_mono [of "divide_num vol cap" "3602879701896397 / 72057594037927936"
        "5404319552844595 / 36028797018963968"]
      lt_Fin_mono [of "divide_num vol cap" "3602879701896397 / 36028797018963968"
        "5404319552844595 / 36028797018963968"] by auto
  with h show "getRiskLevel vol cap change = ''LOW''"
    unfolding getRiskLevel_def threshold_values by (simp add: gt_def)
qed

subsection \<open>Occurrences in strings\<close>

lemma startsWith_append: "startsWith (t @ b) t"
  by (induction t) simp_all

lemma str_includes_append: "str_includes (a @ t @ b) t"
proof (induction a)
  case Nil
  show ?case
  proof (cases "t @ b")
    case Nil
    then show ?thesis by simp
  next
    case (Cons c cs)
    then show ?thesis
      using startsWith_append [of t b] by simp
  qed
next
  case (Cons c a)
  then show ?case by simp
qed

lemma str_includes_middle: "s = a @ t @ b \<Longrightarrow> str_includes s t"
  by (simp add: str_includes_append)

section \<open>Properties of the classifier\<close>

text \<open>
  C1 fails on the code: the algorithm of the specification in exact arithmetic and
  \<open>getRiskLevel\<close> part at the thresholds of the ratio. For the volume 5404319552844595
  and the market capitalisation \<open>2\<^sup>5\<^sup>5\<close> the quotient is the binary64 number
  that the literal 0.15 denotes, which is below the decimal 0.15: the code compares it
  with itself and returns LOW, the exact algorithm returns MEDIUM.
\<close>

theorem getRiskLevel_rounding_counterexample:
  "(0::rat) < 36028797018963968 \<and>
   getRiskLevel (Fin 5404319552844595) (Fin 36028797018963968) (Fin 0) = ''LOW'' \<and>
   tierName (classify_spec 5404319552844595 36028797018963968 0) = ''MEDIUM''"
  by (simp add: getRiskLevel_def divide_num_def gt_def classify_spec_def round64_eval)

text \<open>
  C1, as the code has it. For every volume, every market capitalisation above zero and
  every price change, \<open>getRiskLevel\<close> returns the tier of the ordered first-match
  algorithm evaluated in binary64: the liquidity ratio is the quotient rounded to the
  nearest binary64 number, and it is compared with the binary64 numbers nearest to 0.05,
  0.10 and 0.15.
\<close>

theorem getRiskLevel_refines_binary64:
  "0 < cap \<Longrightarrow>
   getRiskLevel (Fin vol) (Fin cap) (Fin change) = tierName (classify_binary64 vol cap change)"
  by (simp add: getRiskLevel_pos classify_binary64_def Let_def)

theorem getRiskLevel_refines_binary64_witness:
  "(0::rat) < 1000 \<and>
   getRiskLevel (Fin 120) (Fin 1000) (Fin (- 25)) = tierName (classify_binary64 120 1000 (- 25)) \<and>
   classify_binary64 120 1000 (- 25) = MEDIUM \<and>
   (0::rat) < 36028797018963968 \<and>
   getRiskLevel (Fin 5404319552844595) (Fin 36028797018963968) (Fin 0) =
     tierName (classify_binary64 5404319552844595 36028797018963968 0) \<and>
   classify_binary64 5404319552844595 36028797018963968 0 = LOW"
  using getRiskLevel_refines_binary64 [of 1000 120 "- 25"]
    getRiskLevel_refines_binary64 [of 36028797018963968 5404319552844595 0]
  by (simp add: classify_binary64_def round64_eval)

text \<open>
  C3 fails on the code: with a market capitalisation of zero, a volume of 1000 and no
  price change, the division gives the positive infinity, no clause fires, and the
  result is LOW.
\<close>

theorem getRiskLevel_zero_cap_counterexample:
  "getRiskLevel (Fin 1000) (Fin 0) (Fin 0) = ''LOW'' \<and> ''LOW'' \<noteq> ''VERY_HIGH''"
  by (simp add: getRiskLevel_def divide_num_def signed_infinity_def gt_def round64_eval)

text \<open>
  C3, as the code has it. With a market capitalisation that is a zero of either sign,
  \<open>getRiskLevel\<close> does not fail and its result is a function of the inputs. The ratio
  is the negative infinity when the volume is neither \<open>NaN\<close> nor a zero and its sign
  differs from the sign of the zero, and then the result is VERY_HIGH, as it is for a
  volatility above 50; otherwise the ratio is the positive infinity or \<open>NaN\<close> and the
  tier is the one that the volatility alone gives, down to LOW.
\<close>

theorem getRiskLevel_zero_cap:
  "is_zero cap \<Longrightarrow>
   getRiskLevel vol cap change =
     (if (vol \<noteq> NaN \<and> \<not> is_zero vol \<and> sign_bit vol \<noteq> sign_bit cap) \<or>
         gt (Math_abs change) (Fin 50) then ''VERY_HIGH''
      else if gt (Math_abs change) (Fin 30) then ''HIGH''
      else if gt (Math_abs change) (Fin 20) then ''MEDIUM''
      else ''LOW'')"
proof -
  assume z: "is_zero cap"
  then have c: "cap \<noteq> NaN" "\<not> is_infinite cap" by (cases cap; simp)+
  have d: "divide_num vol cap =
      (if vol = NaN \<or> is_zero vol then NaN else signed_infinity (sign_bit vol \<noteq> sign_bit cap))"
    using z c by (cases vol) (simp_all add: divide_num_def)
  show ?thesis
    unfolding getRiskLevel_def d Let_def threshold_values
    by (simp add: signed_infinity_def)
qed

theorem getRiskLevel_zero_cap_witness:
  "is_zero (Fin 0) \<and> is_zero NegZero \<and>
   getRiskLevel (Fin 1000) (Fin 0) (Fin 0) = ''LOW'' \<and>
   getRiskLevel (Fin 1000) NegZero (Fin 0) = ''VERY_HIGH'' \<and>
   getRiskLevel (Fin (- 1000)) NegZero (Fin 0) = ''LOW'' \<and>
   getRiskLevel (Fin (- 1000)) (Fin 0) (Fin 0) = ''VERY_HIGH'' \<and>
   getRiskLevel (Fin 0) (Fin 0) (Fin 25) = ''MEDIUM''"
  using getRiskLevel_zero_cap [of "Fin 0" "Fin 1000" "Fin 0"]
    getRiskLevel_zero_cap [of NegZero "Fin 1000" "Fin 0"]
    getRiskLevel_zero_cap [of NegZero "Fin (- 1000)" "Fin 0"]
    getRiskLevel_zero_cap [of "Fin 0" "Fin (- 1000)" "Fin 0"]
    getRiskLevel_zero_cap [of "Fin 0" "Fin 0" "Fin 25"]
  by (simp add: gt_def)

text \<open>
  C5. A liquidity ratio that is exactly 0.05, 0.10 or 0.15, whether the computed
  quotient equals the number that the literal denotes or the exact quotient of the two
  inputs equals the decimal, and a volatility of exactly 50, 30 or 20 do not fire the
  clause whose threshold they equal: unless a clause of a higher tier fires, the result
  is the next lower tier.
\<close>

theorem getRiskLevel_boundaries:
  "(divide_num vol cap = round64 (5 / 100) \<and> \<not> gt (Math_abs change) (Fin 50)
      \<longrightarrow> getRiskLevel vol cap change = ''HIGH'') \<and>
   (divide_num vol cap = round64 (10 / 100) \<and> \<not> gt (Math_abs change) (Fin 30)
      \<longrightarrow> getRiskLevel vol cap change = ''MEDIUM'') \<and>
   (divide_num vol cap = round64 (15 / 100) \<and> \<not> gt (Math_abs change) (Fin 20)
      \<longrightarrow> getRiskLevel vol cap change = ''LOW'') \<and>
   (Math_abs change = Fin 50 \<and> \<not> lt (divide_num vol cap) (round64 (5 / 100))
      \<longrightarrow> getRiskLevel vol cap change = ''HIGH'') \<and>
   (Math_abs change = Fin 30 \<and> \<not> lt (divide_num vol cap) (round64 (10 / 100))
      \<longrightarrow> getRiskLevel vol cap change = ''MEDIUM'') \<and>
   (Math_abs change = Fin 20 \<and> \<not> lt (divide_num vol cap) (round64 (15 / 100))
      \<longrightarrow> getRiskLevel vol cap change = ''LOW'') \<and>
   (c \<noteq> 0 \<and> v / c = 5 / 100 \<and> \<not> gt (Math_abs change) (Fin 50)
      \<longrightarrow> getRiskLevel (Fin v) (Fin c) change = ''HIGH'') \<and>
   (c \<noteq> 0 \<and> v / c = 10 / 100 \<and> \<not> gt (Math_abs change) (Fin 30)
      \<longrightarrow> getRiskLevel (Fin v) (Fin c) change = ''MEDIUM'') \<and>
   (c \<noteq> 0 \<and> v / c = 15 / 100 \<and> \<not> gt (Math_abs change) (Fin 20)
      \<longrightarrow> getRiskLevel (Fin v) (Fin c) change = ''LOW'')"
proof -
  have exact: "c \<noteq> 0 \<and> v / c = t \<and> t \<noteq> 0 \<longrightarrow> divide_num (Fin v) (Fin c) = round64 t" for t
    using divide_num_nonzero [of c v] by auto
  from exact [of "5 / 100"] exact [of "10 / 100"] exact [of "15 / 100"]
    ratio_boundaries [of "Fin v" "Fin c" change]
  have "(c \<noteq> 0 \<and> v / c = 5 / 100 \<and> \<not> gt (Math_abs change) (Fin 50)
      \<longrightarrow> getRiskLevel (Fin v) (Fin c) change = ''HIGH'') \<and>
   (c \<noteq> 0 \<and> v / c = 10 / 100 \<and> \<not> gt (Math_abs change) (Fin 30)
      \<longrightarrow> getRiskLevel (Fin v) (Fin c) change = ''MEDIUM'') \<and>
   (c \<noteq> 0 \<and> v / c = 15 / 100 \<and> \<not> gt (Math_abs change) (Fin 20)
      \<longrightarrow> getRiskLevel (Fin v) (Fin c) change = ''LOW'')"
    by (simp del: divide_eq_eq_numeral1 eq_divide_eq_numeral1)
  with ratio_boundaries [of vol cap change] volatility_boundaries [of change vol cap]
  show ?thesis by (intro conjI) (elim conjE, assumption)+
qed

theorem getRiskLevel_boundaries_witness:
  "divide_num (Fin 5) (Fin 100) = round64 (5 / 100) \<and> \<not> gt (Math_abs (Fin 50)) (Fin 50) \<and>
   divide_num (Fin 5404319552844595) (Fin 36028797018963968) = round64 (15 / 100) \<and>
   Math_abs (Fin (- 30)) = Fin 30 \<and> \<not> lt (divide_num (Fin 15) (Fin 100)) (round64 (10 / 100)) \<and>
   (20::rat) \<noteq> 0 \<and> (1::rat) / 20 = 5 / 100 \<and>
   getRiskLevel (Fin 5) (Fin 100) (Fin 50) = ''HIGH'' \<and>
   getRiskLevel (Fin 10) (Fin 100) (Fin (- 30)) = ''MEDIUM'' \<and>
   getRiskLevel (Fin 5404319552844595) (Fin 36028797018963968) (Fin 0) = ''LOW'' \<and>
   getRiskLevel (Fin 10) (Fin 100) (Fin (- 50)) = ''HIGH'' \<and>
   getRiskLevel (Fin 15) (Fin 100) (Fin (- 30)) = ''MEDIUM'' \<and>
   getRiskLevel (Fin 15) (Fin 100) (Fin (- 20)) = ''LOW'' \<and>
   getRiskLevel (Fin 1) (Fin 20) (Fin 10) = ''HIGH''"
  using getRiskLevel_boundaries [of "Fin 5" "Fin 100" "Fin 50" 20 1]
    getRiskLevel_boundaries [of "Fin 10" "Fin 100" "Fin (- 30)" 20 1]
    getRiskLevel_boundaries [of "Fin 5404319552844595" "Fin 36028797018963968" "Fin 0" 20 1]
    getRiskLevel_boundaries [of "Fin 10" "Fin 100" "Fin (- 50)" 20 1]
    getRiskLevel_boundaries [of "Fin 15" "Fin 100" "Fin (- 30)" 20 1]
    getRiskLevel_boundaries [of "Fin 15" "Fin 100" "Fin (- 20)" 20 1]
    getRiskLevel_boundaries [of "Fin 1" "Fin 20" "Fin 10" 20 1]
  by (simp add: gt_def divide_num_def round64_eval)

text \<open>
  C6. With a market capitalisation above zero the result is one of the four tier names;
  with the liquidity ratio fixed the severity does not fall as the volatility rises, and
  with the volatility fixed it does not fall as the liquidity ratio falls.
\<close>

theorem getRiskLevel_monotone:
  "0 < cap \<and> 0 < cap' \<longrightarrow>
   getRiskLevel (Fin vol) (Fin cap) (Fin change) \<in> {''LOW'', ''MEDIUM'', ''HIGH'', ''VERY_HIGH''} \<and>
   (vol / cap = vol' / cap' \<and> \<bar>change\<bar> \<le> \<bar>change'\<bar> \<longrightarrow>
      severity (getRiskLevel (Fin vol) (Fin cap) (Fin change))
        \<le> severity (getRiskLevel (Fin vol') (Fin cap') (Fin change'))) \<and>
   (\<bar>change\<bar> = \<bar>change'\<bar> \<and> vol' / cap' \<le> vol / cap \<longrightarrow>
      severity (getRiskLevel (Fin vol) (Fin cap) (Fin change))
        \<le> severity (getRiskLevel (Fin vol') (Fin cap') (Fin change')))"
proof (intro impI conjI)
  assume pos: "0 < cap \<and> 0 < cap'"
  then show "getRiskLevel (Fin vol) (Fin cap) (Fin change)
      \<in> {''LOW'', ''MEDIUM'', ''HIGH'', ''VERY_HIGH''}"
    by (simp only: getRiskLevel_pos split: if_split) blast
next
  assume pos: "0 < cap \<and> 0 < cap'"
    and h: "vol / cap = vol' / cap' \<and> \<bar>change\<bar> \<le> \<bar>change'\<bar>"
  from h have "vol' / cap' \<le> vol / cap" and "\<bar>change\<bar> \<le> \<bar>change'\<bar>"
    by simp_all
  from severity_mono [OF this] pos
  show "severity (getRiskLevel (Fin vol) (Fin cap) (Fin change))
      \<le> severity (getRiskLevel (Fin vol') (Fin cap') (Fin change'))"
    by (simp only: severity_getRiskLevel)
next
  assume pos: "0 < cap \<and> 0 < cap'"
    and h: "\<bar>change\<bar> = \<bar>change'\<bar> \<and> vol' / cap' \<le> vol / cap"
  from h have "vol' / cap' \<le> vol / cap" and "\<bar>change\<bar> \<le> \<bar>change'\<bar>"
    by simp_all
  from severity_mono [OF this] pos
  show "severity (getRiskLevel (Fin vol) (Fin cap) (Fin change))
      \<le> severity (getRiskLevel (Fin vol') (Fin cap') (Fin change'))"
    by (simp only: severity_getRiskLevel)
qed

theorem getRiskLevel_monotone_witness:
  "(0::rat) < 1000 \<and> (0::rat) < 2000 \<and>
   (200::rat) / 1000 = 400 / 2000 \<and> \<bar>10::rat\<bar> \<le> \<bar>- 40\<bar> \<and>
   \<bar>10::rat\<bar> = \<bar>- 10\<bar> \<and> (70::rat) / 1000 \<le> 200 / 1000 \<and>
   getRiskLevel (Fin 200) (Fin 1000) (Fin 10) \<in> {''LOW'', ''MEDIUM'', ''HIGH'', ''VERY_HIGH''} \<and>
   severity (getRiskLevel (Fin 200) (Fin 1000) (Fin 10))
     \<le> severity (getRiskLevel (Fin 400) (Fin 2000) (Fin (- 40))) \<and>
   severity (getRiskLevel (Fin 200) (Fin 1000) (Fin 10))
     \<le> severity (getRiskLevel (Fin 70) (Fin 1000) (Fin (- 10)))"
  using getRiskLevel_monotone [of 1000 2000 200 10 400 "- 40"]
    getRiskLevel_monotone [of 1000 1000 200 10 70 "- 10"]
  by simp

section \<open>Properties of the market-data actions\<close>

text \<open>
  C2 holds of the documentation of \<open>analyzeCoins\<close>, whose limit is the maximum number
  of coins to analyze, and fails on its code, which sends the limit to the provider as
  the page size and does not cut the response: with a provider that answers with three
  records and a limit of 2, it returns three coins, in the order of the response, each
  with its liquidity score.
\<close>

theorem analyzeCoins_exceeds_limit:
  "analyzeCoins ascii_only (Some ''key'')
     (mock_respond [coin_record ''doge'' 1 5 250 1000, coin_record ''shib'' 2 (- 3) 500 1000,
        coin_record ''pepe'' 3 0 125 1000])
     ''meme-token'' (Fin 2) fresh_world =
     (Coins
        [\<lparr>sym = ''DOGE'', price = Fin 1, priceChange24h = Fin 5, volume = Fin 250,
           marketCap = Fin 1000, liquidityScore = Fin 25, riskLevel = ''LOW''\<rparr>,
         \<lparr>sym = ''SHIB'', price = Fin 2, priceChange24h = Fin (- 3), volume = Fin 500,
           marketCap = Fin 1000, liquidityScore = Fin 50, riskLevel = ''LOW''\<rparr>,
         \<lparr>sym = ''PEPE'', price = Fin 3, priceChange24h = Fin 0, volume = Fin 125,
           marketCap = Fin 1000, liquidityScore = Fin (25 / 2), riskLevel = ''MEDIUM''\<rparr>],
      fresh_world)"
  by (simp add: analyzeCoins_def mock_respond_def coin_record_def analyseCoin_def
      toUpperCase_def is_ascii_def upperChar_def ascii_only_def getRiskLevel_def gt_def
      divide_num_def times_num_def round64_eval)

text \<open>
  C4 fails on the code: in chatbot.ts an upstream response with status 429 is caught in
  \<open>analyzeCoins\<close>, which returns the empty sequence; the action wraps it in its usual
  report, and nothing in the report tells of a rate limit.
\<close>

theorem analysis_rate_limit_counterexample:
  "analysis_invoke integers_only ascii_only ''2025-01-01T00:00:00.000Z'' (Some ''key'')
     (mock_fail (AxiosError (Some 429) ''Request failed with status code 429''))
     MEME None fresh_world =
     (\<lparr>data = Coins [], message = ''Top 10 MEME coins analyzed'', category = ''MEME'',
        timestamp = ''2025-01-01T00:00:00.000Z''\<rparr>,
      \<lparr>console = [ErrorLog ''Failed to fetch meme-token data:''
           (AxiosError (Some 429) ''Request failed with status code 429'')],
        swapCalls = []\<rparr>) \<and>
   \<not> str_includes ''Top 10 MEME coins analyzed'' ''rate limit''"
  by (simp add: analysis_invoke_def analyzeCoins_def mock_fail_def fresh_world_def
      numToString_def digits.simps)

text \<open>
  C4, as the code has it. When the request throws, whatever was thrown, \<open>analyzeCoins\<close>
  of chatbot.ts returns the empty sequence, which its action reports as data, and the
  memecoin action of the older file returns one of its four error texts; neither lets
  the thrown value pass. In the memecoin action a response with status 429 gives the
  error text that names the rate limit.
\<close>

text \<open>
  C4, as the code has it. When the request throws, whatever was thrown, \<open>analyzeCoins\<close>
  of chatbot.ts returns the empty sequence, which its action reports as data, and the
  memecoin action of the older file returns one of its four error texts; neither lets
  the thrown value pass. In the memecoin action a response with status 429 gives the
  error text that names the rate limit.
\<close>

theorem upstream_failure_handled:
  assumes "k \<noteq> []"
    and "get \<lparr>q_vs_currency = ''usd'', q_category = COIN_CATEGORIES cat,
               q_order = ''volume_desc'', q_per_page = limit, q_sparkline = False,
               q_api_key = k\<rparr> = Inl e"
    and "get' \<lparr>q_vs_currency = ''usd'', q_category = ''meme-token'', q_order = ''volume_desc'',
                q_per_page = Fin 10, q_sparkline = False,
                q_api_key = ''CG-3DMPfLJag2C5qnfbVMtocbz9''\<rparr> = Inl e'"
  shows "fst (analyzeCoins up (Some k) get (COIN_CATEGORIES cat) limit w) = Coins [] \<and>
    data (fst (analysis_invoke fmt up now (Some k) get cat (Some limit) w)) = Coins [] \<and>
    fst (memecoin_invoke up now (Some k) get' w) \<in>
      {Text ''Error: Invalid request parameters. Please try different search criteria.'',
       Text ''Error: Invalid CoinGecko API key. Please check your configuration.'',
       Text ''Error: API rate limit exceeded. Please try again later.'',
       Text ''Error: Failed to fetch market data. Please try again later.''} \<and>
    (e' = AxiosError (Some 429) msg \<longrightarrow>
       fst (memecoin_invoke up now (Some k) get' w) =
         Text ''Error: API rate limit exceeded. Please try again later.'') \<and>
    str_includes ''Error: API rate limit exceeded. Please try again later.'' ''rate limit''"
proof -
  have a: "fst (analyzeCoins up (Some k) get (COIN_CATEGORIES cat) limit w) = Coins []"
    using assms(1,2) by (simp add: analyzeCoins_def)
  have b: "data (fst (analysis_invoke fmt up now (Some k) get cat (Some limit) w)) = Coins []"
    using assms(1,2) by (simp add: analysis_invoke_def analyzeCoins_def)
  have c: "fst (memecoin_invoke up now (Some k) get' w) \<in>
      {Text ''Error: Invalid request parameters. Please try different search criteria.'',
       Text ''Error: Invalid CoinGecko API key. Please check your configuration.'',
       Text ''Error: API rate limit exceeded. Please try again later.'',
       Text ''Error: Failed to fetch market data. Please try again later.''}"
    using assms(1,3)
    by (simp add: memecoin_invoke_def Let_def split: thrown.split option.split)
  have d: "e' = AxiosError (Some 429) msg \<longrightarrow>
       fst (memecoin_invoke up now (Some k) get' w) =
         Text ''Error: API rate limit exceeded. Please try again later.''"
    using assms(1,3) by (simp add: memecoin_invoke_def Let_def)
  have e: "str_includes ''Error: API rate limit exceeded. Please try again later.'' ''rate limit''"
    by simp
  from a b c d e show ?thesis
    by (intro conjI)
qed

theorem upstream_failure_handled_witness:
  "''key'' \<noteq> [] \<and>
   fst (analyzeCoins ascii_only (Some ''key'') (mock_fail (AxiosError None ''Network Error''))
          (COIN_CATEGORIES DEFI) (Fin 5) fresh_world) = Coins [] \<and>
   fst (memecoin_invoke ascii_only ''2025-01-01T00:00:00.000Z'' (Some ''key'')
          (mock_fail (AxiosError (Some 429) ''Request failed with status code 429''))
          fresh_world) = Text ''Error: API rate limit exceeded. Please try again later.''"
  using upstream_failure_handled [where k = "''key''"
      and get = "mock_fail (AxiosError None ''Network Error'')" and cat = DEFI
      and limit = "Fin 5" and e = "AxiosError None ''Network Error''"
      and get' = "mock_fail (AxiosError (Some 429) ''Request failed with status code 429'')"
      and e' = "AxiosError (Some 429) ''Request failed with status code 429''"
      and up = ascii_only and w = fresh_world and fmt = integers_only
      and now = "''2025-01-01T00:00:00.000Z''"
      and msg = "''Request failed with status code 429''"]
  by (simp add: mock_fail_def)

section \<open>Properties of the investment action\<close>

text \<open>
  C7. When the balance of the wallet is below the amount, \<open>invest_in_coin\<close> returns the
  shortfall message, in which both the balance and the amount occur, makes no call of
  \<open>performSwapTransaction\<close> and leaves the console and the list of calls as they were.
\<close>

theorem invest_insufficient_balance:
  assumes "getBalance wallet = Inr balance" and "lt balance (amount args)"
  shows "invest_invoke fmt wallet args w = (insufficient_text fmt balance args, w) \<and>
    str_includes (insufficient_text fmt balance args) (numToString fmt balance) \<and>
    str_includes (insufficient_text fmt balance args) (numToString fmt (amount args)) \<and>
    swapCalls (snd (invest_invoke fmt wallet args w)) = swapCalls w"
proof -
  have run: "invest_invoke fmt wallet args w = (insufficient_text fmt balance args, w)"
    using assms by (simp add: invest_invoke_def)
  have "insufficient_text fmt balance args =
      ''Insufficient mainnet balance ('' @ numToString fmt balance @
      ('' ETH). Please top up your wallet to invest '' @ numToString fmt (amount args) @
       '' ETH in '' @ categoryKey (token_category args) @ '' token.'')"
    by (simp only: insufficient_text_def)
  then have b: "str_includes (insufficient_text fmt balance args) (numToString fmt balance)"
    by (rule str_includes_middle)
  have "insufficient_text fmt balance args =
      (''Insufficient mainnet balance ('' @ numToString fmt balance @
       '' ETH). Please top up your wallet to invest '') @ numToString fmt (amount args) @
      ('' ETH in '' @ categoryKey (token_category args) @ '' token.'')"
    by (simp only: insufficient_text_def append_assoc)
  then have a: "str_includes (insufficient_text fmt balance args) (numToString fmt (amount args))"
    by (rule str_includes_middle)
  from run a b show ?thesis by simp
qed

theorem invest_insufficient_balance_witness:
  "lt (Fin 3) (Fin 5) \<and>
   invest_invoke integers_only \<lparr>getBalance = Inr (Fin 3)\<rparr>
     \<lparr>tokenAddress = ''0xabc'', amount = Fin 5, slippage = None, token_category = MEME\<rparr> fresh_world =
     (''Insufficient mainnet balance (3 ETH). Please top up your wallet to invest 5 ETH in MEME token.'',
      fresh_world) \<and>
   str_includes
     ''Insufficient mainnet balance (3 ETH). Please top up your wallet to invest 5 ETH in MEME token.''
     ''3'' \<and>
   str_includes
     ''Insufficient mainnet balance (3 ETH). Please top up your wallet to invest 5 ETH in MEME token.''
     ''5''"
  using invest_insufficient_balance [of "\<lparr>getBalance = Inr (Fin 3)\<rparr>" "Fin 3"
      "\<lparr>tokenAddress = ''0xabc'', amount = Fin 5, slippage = None, token_category = MEME\<rparr>"
      integers_only fresh_world]
  by (simp add: insufficient_text_def numToString_def digits.simps)

text \<open>
  C8. When the balance of the wallet is at least the amount, \<open>invest_in_coin\<close> makes
  exactly one call of \<open>performSwapTransaction\<close>, with the token address and the amount
  of the arguments and with slippage 2 when the slippage is omitted, and returns the
  confirmation, in which the transaction hash of that call occurs.
\<close>

text \<open>
  C8. When the balance of the wallet is at least the amount, \<open>invest_in_coin\<close> makes
  exactly one call of \<open>performSwapTransaction\<close>, with the token address and the amount
  of the arguments and with slippage 2 when the slippage is omitted, and returns the
  confirmation, in which the transaction hash of that call occurs.
\<close>

theorem invest_sufficient_balance:
  assumes "getBalance wallet = Inr (Fin b)" and "amount args = Fin a" and "a \<le> b"
  shows "invest_invoke fmt wallet args w =
      (invested_text fmt args ''0x1234567890abcdef'',
       snd (performSwapTransaction fmt (tokenAddress args) (amount args)
              (slippage_or_default (slippage args)) w)) \<and>
    swapCalls (snd (invest_invoke fmt wallet args w)) =
      swapCalls w @ [(tokenAddress args, amount args, slippage_or_default (slippage args))] \<and>
    (slippage args = None \<longrightarrow>
       swapCalls (snd (invest_invoke fmt wallet args w)) =
         swapCalls w @ [(tokenAddress args, amount args, Fin 2)]) \<and>
    str_includes (fst (invest_invoke fmt wallet args w)) ''0x1234567890abcdef''"
proof -
  have run: "invest_invoke fmt wallet args w =
      (invested_text fmt args ''0x1234567890abcdef'',
       snd (performSwapTransaction fmt (tokenAddress args) (amount args)
              (slippage_or_default (slippage args)) w))"
    using assms by (simp add: invest_invoke_def performSwapTransaction_def)
  have calls: "swapCalls (snd (performSwapTransaction fmt (tokenAddress args) (amount args)
              (slippage_or_default (slippage args)) w)) =
      swapCalls w @ [(tokenAddress args, amount args, slippage_or_default (slippage args))]"
    by (simp add: performSwapTransaction_def)
  have "invested_text fmt args ''0x1234567890abcdef'' =
      (''Invested '' @ numToString fmt (amount args) @ '' ETH in '' @
       categoryKey (token_category args) @ '' token ('' @ tokenAddress args @ ''). TX Hash: '') @
      ''0x1234567890abcdef'' @ []"
    by (simp only: invested_text_def append_assoc append_Nil2)
  then have hash: "str_includes (invested_text fmt args ''0x1234567890abcdef'') ''0x1234567890abcdef''"
    by (rule str_includes_middle)
  from run calls have omitted: "slippage args = None \<longrightarrow>
       swapCalls (snd (invest_invoke fmt wallet args w)) =
         swapCalls w @ [(tokenAddress args, amount args, Fin 2)]"
    by (auto simp: slippage_or_default_def)
  from run calls have once: "swapCalls (snd (invest_invoke fmt wallet args w)) =
      swapCalls w @ [(tokenAddress args, amount args, slippage_or_default (slippage args))]"
    by simp
  from run hash have "str_includes (fst (invest_invoke fmt wallet args w)) ''0x1234567890abcdef''"
    by simp
  with run once omitted show ?thesis
    by (intro conjI)
qed

theorem invest_sufficient_balance_witness:
  "(1::rat) \<le> 10 \<and>
   invest_invoke integers_only \<lparr>getBalance = Inr (Fin 10)\<rparr>
     \<lparr>tokenAddress = ''0xabc'', amount = Fin 1, slippage = None, token_category = DEFI\<rparr> fresh_world =
     (''Invested 1 ETH in DEFI token (0xabc). TX Hash: 0x1234567890abcdef'',
      \<lparr>console = [Log ''Swapping 1 ETH for 0xabc with 2% slippage tolerance...''],
       swapCalls = [(''0xabc'', Fin 1, Fin 2)]\<rparr>)"
  using invest_sufficient_balance [of "\<lparr>getBalance = Inr (Fin 10)\<rparr>" 10
      "\<lparr>tokenAddress = ''0xabc'', amount = Fin 1, slippage = None, token_category = DEFI\<rparr>"
      1 integers_only fresh_world, THEN conjunct1]
  by (simp add: invested_text_def performSwapTransaction_def numToString_def digits.simps
      fresh_world_def slippage_or_default_def)

text \<open>
  C9. A slippage given as 0 is replaced by 2: the action behaves exactly as with the
  slippage omitted, and when the balance suffices the swap is called with slippage 2.
\<close>

text \<open>
  C9. A slippage given as 0 is replaced by 2: the action behaves exactly as with the
  slippage omitted, and when the balance suffices the swap is called with slippage 2.
\<close>

theorem invest_zero_slippage:
  "invest_invoke fmt wallet (args\<lparr>slippage := Some (Fin 0)\<rparr>) w =
     invest_invoke fmt wallet (args\<lparr>slippage := None\<rparr>) w \<and>
   slippage_or_default (Some (Fin 0)) = Fin 2 \<and>
   (getBalance wallet = Inr balance \<and> \<not> lt balance (amount args) \<longrightarrow>
      swapCalls (snd (invest_invoke fmt wallet (args\<lparr>slippage := Some (Fin 0)\<rparr>) w)) =
        swapCalls w @ [(tokenAddress args, amount args, Fin 2)])"
  by (simp add: invest_invoke_def slippage_or_default_def performSwapTransaction_def
      invested_text_def insufficient_text_def split: sum.split)

theorem invest_zero_slippage_witness:
  "\<not> lt (Fin 10) (Fin 1) \<and>
   invest_invoke integers_only \<lparr>getBalance = Inr (Fin 10)\<rparr>
     \<lparr>tokenAddress = ''0xabc'', amount = Fin 1, slippage = Some (Fin 0), token_category = AI\<rparr>
     fresh_world =
   invest_invoke integers_only \<lparr>getBalance = Inr (Fin 10)\<rparr>
     \<lparr>tokenAddress = ''0xabc'', amount = Fin 1, slippage = None, token_category = AI\<rparr>
     fresh_world \<and>
   swapCalls (snd (invest_invoke integers_only \<lparr>getBalance = Inr (Fin 10)\<rparr>
     \<lparr>tokenAddress = ''0xabc'', amount = Fin 1, slippage = Some (Fin 0), token_category = AI\<rparr>
     fresh_world)) = [(''0xabc'', Fin 1, Fin 2)]"
proof -
  note inst = invest_zero_slippage [of integers_only "\<lparr>getBalance = Inr (Fin 10)\<rparr>"
      "\<lparr>tokenAddress = ''0xabc'', amount = Fin 1, slippage = None, token_category = AI\<rparr>"
      fresh_world "Fin 10"]
  have enough: "\<not> lt (Fin 10) (Fin 1)"
    by simp
  have same: "invest_invoke integers_only \<lparr>getBalance = Inr (Fin 10)\<rparr>
     \<lparr>tokenAddress = ''0xabc'', amount = Fin 1, slippage = Some (Fin 0), token_category = AI\<rparr>
     fresh_world =
   invest_invoke integers_only \<lparr>getBalance = Inr (Fin 10)\<rparr>
     \<lparr>tokenAddress = ''0xabc'', amount = Fin 1, slippage = None, token_category = AI\<rparr>
     fresh_world"
    using inst [THEN conjunct1] by simp
  have calls: "swapCalls (snd (invest_invoke integers_only \<lparr>getBalance = Inr (Fin 10)\<rparr>
     \<lparr>tokenAddress = ''0xabc'', amount = Fin 1, slippage = Some (Fin 0), token_category = AI\<rparr>
     fresh_world)) = [(''0xabc'', Fin 1, Fin 2)]"
    using inst [THEN conjunct2, THEN conjunct2] by (simp add: fresh_world_def)
  from enough same calls show ?thesis
    by (intro conjI)
qed

text \<open>
  C10. When the balance of the wallet equals the amount, the shortfall branch is not
  taken: the swap is called and the confirmation is returned.
\<close>

text \<open>
  C10. When the balance of the wallet equals the amount, the shortfall branch is not
  taken: the swap is called and the confirmation is returned.
\<close>

theorem invest_equal_balance:
  "getBalance wallet = Inr (amount args) \<longrightarrow>
     fst (invest_invoke fmt wallet args w) \<noteq> insufficient_text fmt (amount args) args \<and>
     fst (invest_invoke fmt wallet args w) = invested_text fmt args ''0x1234567890abcdef'' \<and>
     swapCalls (snd (invest_invoke fmt wallet args w)) =
       swapCalls w @ [(tokenAddress args, amount args, slippage_or_default (slippage args))]"
  by (simp add: invest_invoke_def lt_irrefl performSwapTransaction_def insufficient_text_def
      invested_text_def)

theorem invest_equal_balance_witness:
  "fst (invest_invoke integers_only \<lparr>getBalance = Inr (Fin 5)\<rparr>
     \<lparr>tokenAddress = ''0xabc'', amount = Fin 5, slippage = Some (Fin 1), token_category = ZK\<rparr>
     fresh_world) = ''Invested 5 ETH in ZK token (0xabc). TX Hash: 0x1234567890abcdef'' \<and>
   swapCalls (snd (invest_invoke integers_only \<lparr>getBalance = Inr (Fin 5)\<rparr>
     \<lparr>tokenAddress = ''0xabc'', amount = Fin 5, slippage = Some (Fin 1), token_category = ZK\<rparr>
     fresh_world)) = [(''0xabc'', Fin 5, Fin 1)]"
  using invest_equal_balance [of "\<lparr>getBalance = Inr (Fin 5)\<rparr>"
      "\<lparr>tokenAddress = ''0xabc'', amount = Fin 5, slippage = Some (Fin 1), token_category = ZK\<rparr>"
      integers_only fresh_world]
  by (simp add: invested_text_def numToString_def digits.simps fresh_world_def
      slippage_or_default_def)

end
